theory Spec2Isabelle
  imports Main "HOL-Library.Char_ord" "HOL-Library.List_Lexorder"
begin

section \<open>The Glue catalog interface of mlpacke (interface/glue.py)\<close>

text \<open>
  \<^verbatim>\<open>CatalogInterface\<close> is a class used through its class methods only. Its class
  attributes \<^verbatim>\<open>_client_glue\<close> and \<^verbatim>\<open>_cache\<close> are the program's state; the AWS Glue
  service behind the boto3 client is the environment. The model passes the state
  explicitly, takes the behaviour of the service as a parameter, and returns every
  exception as a value.
\<close>

subsection \<open>Values, exceptions and log records\<close>

text \<open>
  The elements of a \<^verbatim>\<open>partition\<close> argument are passed through \<^verbatim>\<open>str\<close>. The model
  covers the two kinds of element a caller passes: strings and integers.
\<close>

datatype pyval = PyStr string | PyInt int

definition digit_char :: "nat \<Rightarrow> char" where
  "digit_char d = ''0123456789'' ! d"

fun digits :: "nat \<Rightarrow> string" where
  "digits n = (if n < 10 then [digit_char n] else digits (n div 10) @ [digit_char (n mod 10)])"

declare digits.simps [simp del]

fun py_str :: "pyval \<Rightarrow> string" where
  "py_str (PyStr s) = s"
| "py_str (PyInt i) = (if i < 0 then CHR ''-'' # digits (nat (- i)) else digits (nat i))"

text \<open>
  The exceptions that occur: the service's \<^verbatim>\<open>EntityNotFoundException\<close>, Python's
  \<^verbatim>\<open>IndexError\<close>, and any other exception, named by its class. All of them are
  subclasses of \<^verbatim>\<open>Exception\<close>.
\<close>

datatype exn = EntityNotFoundException | IndexError | OtherException string

datatype level = DEBUG | WARNING | ERROR

text \<open>
  One constructor for each message the module formats, holding the values that the
  f-string interpolates; \<open>Raised\<close> is \<^verbatim>\<open>logger.error(e)\<close>.
\<close>

datatype message =
    PartitionMissing "string list" string string
  | FetchFailed string string
  | AlreadyExists
  | Creating "string list" string
  | Created
  | CreateFailed "string list" string string
  | Updated
  | UpdateStatus int
  | UpdateFailed "string list" string string
  | Raised exn

subsection \<open>Requests and responses of the service\<close>

record partition =
  Values :: "string list"
  Location :: string

record get_partition_response =
  Partition :: partition

record get_partitions_response =
  Partitions :: "partition list"
  NextToken :: "string option"

record write_response =
  HTTPStatusCode :: int

record serde_info =
  SerializationLibrary :: string
  Parameters :: "(string \<times> string) list"

record storage_descriptor =
  SdLocation :: string
  InputFormat :: "string option"
  OutputFormat :: "string option"
  SerdeInfo :: "serde_info option"

record partition_input =
  InValues :: "string list"
  StorageDescriptor :: storage_descriptor

datatype request =
    GetPartitionReq string string "string list"
  | GetPartitionsReq string string nat bool string
  | CreatePartitionReq string string partition_input
  | UpdatePartitionReq string string "string list" partition_input

datatype client = GlueClient

text \<open>
  The environment: what \<^verbatim>\<open>boto3.client\<close> gives, and how the service, in state
  \<open>'g\<close>, answers each of the four requests the module sends. An answer is an
  exception or a response, with the service's next state.
\<close>

record 'g glue_api =
  boto3_client :: "exn + client"
  api_get_partition :: "'g \<Rightarrow> string \<Rightarrow> string \<Rightarrow> string list \<Rightarrow> (exn + get_partition_response) \<times> 'g"
  api_get_partitions :: "'g \<Rightarrow> string \<Rightarrow> string \<Rightarrow> nat \<Rightarrow> bool \<Rightarrow> string \<Rightarrow> (exn + get_partitions_response) \<times> 'g"
  api_create_partition :: "'g \<Rightarrow> string \<Rightarrow> string \<Rightarrow> partition_input \<Rightarrow> (exn + write_response) \<times> 'g"
  api_update_partition :: "'g \<Rightarrow> string \<Rightarrow> string \<Rightarrow> string list \<Rightarrow> partition_input \<Rightarrow> (exn + write_response) \<times> 'g"

subsection \<open>The state\<close>

text \<open>
  \<open>client_glue\<close> and \<open>cache\<close> are the class attributes. \<open>service\<close> is the state of
  the remote catalog, \<open>requests\<close> records every request sent to it, in order, and
  \<open>log\<close> every call of the logger.
\<close>

record 'g world =
  client_glue :: "client option"
  cache :: "string \<rightharpoonup> string list list"
  service :: 'g
  requests :: "request list"
  log :: "(level \<times> message) list"

definition logger :: "level \<Rightarrow> message \<Rightarrow> 'g world \<Rightarrow> 'g world" where
  "logger l m w = w\<lparr>log := log w @ [(l, m)]\<rparr>"

definition send :: "request \<Rightarrow> 'g \<Rightarrow> 'g world \<Rightarrow> 'g world" where
  "send r g w = w\<lparr>service := g, requests := requests w @ [r]\<rparr>"

definition client_get_partition ::
  "'g glue_api \<Rightarrow> 'g world \<Rightarrow> string \<Rightarrow> string \<Rightarrow> string list \<Rightarrow> (exn + get_partition_response) \<times> 'g world" where
  "client_get_partition env w database table vs =
     (case api_get_partition env (service w) database table vs of
        (r, g) \<Rightarrow> (r, send (GetPartitionReq database table vs) g w))"

definition client_get_partitions ::
  "'g glue_api \<Rightarrow> 'g world \<Rightarrow> string \<Rightarrow> string \<Rightarrow> nat \<Rightarrow> bool \<Rightarrow> string \<Rightarrow> (exn + get_partitions_response) \<times> 'g world" where
  "client_get_partitions env w database table n ex tok =
     (case api_get_partitions env (service w) database table n ex tok of
        (r, g) \<Rightarrow> (r, send (GetPartitionsReq database table n ex tok) g w))"

definition client_create_partition ::
  "'g glue_api \<Rightarrow> 'g world \<Rightarrow> string \<Rightarrow> string \<Rightarrow> partition_input \<Rightarrow> (exn + write_response) \<times> 'g world" where
  "client_create_partition env w database table inp =
     (case api_create_partition env (service w) database table inp of
        (r, g) \<Rightarrow> (r, send (CreatePartitionReq database table inp) g w))"

definition client_update_partition ::
  "'g glue_api \<Rightarrow> 'g world \<Rightarrow> string \<Rightarrow> string \<Rightarrow> string list \<Rightarrow> partition_input \<Rightarrow> (exn + write_response) \<times> 'g world" where
  "client_update_partition env w database table vs inp =
     (case api_update_partition env (service w) database table vs inp of
        (r, g) \<Rightarrow> (r, send (UpdatePartitionReq database table vs inp) g w))"

subsection \<open>get_client and get_partition\<close>

definition create_client :: "'g glue_api \<Rightarrow> exn + client" where
  "create_client env = boto3_client env"

definition get_client :: "'g glue_api \<Rightarrow> 'g world \<Rightarrow> (exn + client) \<times> 'g world" where
  "get_client env w =
     (case client_glue w of
        Some c \<Rightarrow> (Inr c, w)
      | None \<Rightarrow>
          (case create_client env of
             Inl e \<Rightarrow> (Inl e, w)
           | Inr c \<Rightarrow> (Inr c, w\<lparr>client_glue := Some c\<rparr>)))"

definition get_partition ::
  "'g glue_api \<Rightarrow> 'g world \<Rightarrow> string \<Rightarrow> string \<Rightarrow> pyval list \<Rightarrow> (exn + get_partition_response option) \<times> 'g world" where
  "get_partition env w database table partition_arg =
     (case get_client env w of
        (Inl e, w0) \<Rightarrow> (Inl e, w0)
      | (Inr c, w0) \<Rightarrow>
          (let partition_str = map py_str partition_arg in
           case client_get_partition env w0 database table partition_str of
             (Inr response, w1) \<Rightarrow> (Inr (Some response), w1)
           | (Inl EntityNotFoundException, w1) \<Rightarrow>
               (Inr None, logger WARNING (PartitionMissing partition_str database table) w1)
           | (Inl e, w1) \<Rightarrow> (Inl e, w1)))"

subsection \<open>get_all_partitions and get_last_partition\<close>

text \<open>
  \<^verbatim>\<open>sorted(page, key=lambda x: x["Values"][0], reverse=True)\<close>: the keys of all
  entries are computed first, so an entry with no value raises \<^verbatim>\<open>IndexError\<close>; the
  sort is stable, and with \<^verbatim>\<open>reverse=True\<close> entries of equal key keep their order
  (the list is reversed, sorted ascending and reversed again). Strings compare
  lexicographically by character code.
\<close>

definition sort_desc :: "partition list \<Rightarrow> partition list" where
  "sort_desc page = rev (sort_key (\<lambda>x. hd (Values x)) (rev page))"

definition sorted_reverse :: "partition list \<Rightarrow> exn + partition list" where
  "sorted_reverse page =
     (if [] \<in> set (map Values page) then Inl IndexError else Inr (sort_desc page))"

text \<open>
  The \<^verbatim>\<open>while True\<close> loop, with the variables \<^verbatim>\<open>next_token\<close> and \<^verbatim>\<open>partitions\<close>.
  It ends when a response has no \<^verbatim>\<open>NextToken\<close> or when an exception is raised;
  the result holds the exception, if any, and the value of \<^verbatim>\<open>partitions\<close> at that
  moment. A service that always sends a token keeps it running: the result is
  \<open>None\<close>.
\<close>

partial_function (option) fetch_pages ::
  "'g glue_api \<Rightarrow> string \<Rightarrow> string \<Rightarrow> string \<Rightarrow> string list list \<Rightarrow> 'g world
     \<Rightarrow> ((exn + unit) \<times> string list list \<times> 'g world) option" where
  "fetch_pages env database table next_token partitions w =
     (case client_get_partitions env w database table 500 True next_token of
        (Inl e, w1) \<Rightarrow> Some (Inl e, partitions, w1)
      | (Inr response, w1) \<Rightarrow>
          (case sorted_reverse (Partitions response) of
             Inl e \<Rightarrow> Some (Inl e, partitions, w1)
           | Inr page \<Rightarrow>
               (case NextToken response of
                  None \<Rightarrow> Some (Inr (), partitions @ map Values page, w1)
                | Some tok \<Rightarrow> fetch_pages env database table tok (partitions @ map Values page) w1)))"

text \<open>
  What a listing returns: a list of first values (strings) or of full keys (lists).
\<close>

datatype item = Str string | Lst "string list"

definition cache_key :: "string \<Rightarrow> string \<Rightarrow> string" where
  "cache_key database table = database @ ''.'' @ table"

text \<open>\<^verbatim>\<open>[item[0] for item in ps]\<close> raises \<^verbatim>\<open>IndexError\<close> at an empty item.\<close>

definition first_values :: "string list list \<Rightarrow> exn + item list" where
  "first_values ps = (if [] \<in> set ps then Inl IndexError else Inr (map (\<lambda>p. Str (hd p)) ps))"

definition listing :: "bool \<Rightarrow> string list list \<Rightarrow> exn + item list" where
  "listing only_first_value ps = (if only_first_value then first_values ps else Inr (map Lst ps))"

definition get_all_partitions ::
  "'g glue_api \<Rightarrow> 'g world \<Rightarrow> string \<Rightarrow> string \<Rightarrow> bool \<Rightarrow> ((exn + item list) \<times> 'g world) option" where
  "get_all_partitions env w database table only_first_value =
     (case get_client env w of
        (Inl e, w0) \<Rightarrow> Some (Inl e, w0)
      | (Inr c, w0) \<Rightarrow>
          (case cache w0 (cache_key database table) of
             Some ps \<Rightarrow> Some (listing only_first_value ps, w0)
           | None \<Rightarrow>
               (case fetch_pages env database table '''' [] w0 of
                  None \<Rightarrow> None
                | Some (Inr u, partitions, w1) \<Rightarrow>
                    Some (listing only_first_value partitions,
                          w1\<lparr>cache := (cache w1)(cache_key database table \<mapsto> partitions)\<rparr>)
                | Some (Inl EntityNotFoundException, partitions, w1) \<Rightarrow>
                    (let w2 = logger WARNING (FetchFailed database table) w1 in
                     Some (listing only_first_value partitions,
                           w2\<lparr>cache := (cache w2)(cache_key database table \<mapsto> partitions)\<rparr>))
                | Some (Inl e, partitions, w1) \<Rightarrow> Some (Inl e, w1))))"

definition get_last_partition ::
  "'g glue_api \<Rightarrow> 'g world \<Rightarrow> string \<Rightarrow> string \<Rightarrow> bool \<Rightarrow> ((exn + item) \<times> 'g world) option" where
  "get_last_partition env w database table only_first_value =
     (case get_all_partitions env w database table only_first_value of
        None \<Rightarrow> None
      | Some (Inl e, w1) \<Rightarrow> Some (Inl e, w1)
      | Some (Inr partitions, w1) \<Rightarrow>
          (case partitions of
             [] \<Rightarrow> Some (Inl IndexError, w1)
           | x # xs \<Rightarrow> Some (Inr x, w1)))"

subsection \<open>create_partition and update_partition\<close>

definition create_input :: "string list \<Rightarrow> string \<Rightarrow> partition_input" where
  "create_input vs location =
     \<lparr>InValues = vs,
      StorageDescriptor =
        \<lparr>SdLocation = location,
         InputFormat = Some ''org.apache.hadoop.mapred.TextInputFormat'',
         OutputFormat = Some ''org.apache.hadoop.hive.ql.io.HiveIgnoreKeyTextOutputFormat'',
         SerdeInfo = Some
           \<lparr>SerializationLibrary = ''org.apache.hadoop.hive.ql.io.parquet.serde.ParquetHiveSerDe'',
            Parameters = [(''serialization.format'', ''1'')]\<rparr>\<rparr>\<rparr>"

definition update_input :: "string list \<Rightarrow> string \<Rightarrow> partition_input" where
  "update_input vs location =
     \<lparr>InValues = vs,
      StorageDescriptor =
        \<lparr>SdLocation = location, InputFormat = None, OutputFormat = None, SerdeInfo = None\<rparr>\<rparr>"

text \<open>
  \<^verbatim>\<open>if cls.get_partition(...)\<close> tests the truth value of the result: \<^verbatim>\<open>None\<close> is
  false, and a response, a dictionary that holds the key \<^verbatim>\<open>Partition\<close>, is true.
\<close>

definition create_partition ::
  "'g glue_api \<Rightarrow> 'g world \<Rightarrow> string \<Rightarrow> string \<Rightarrow> pyval list \<Rightarrow> string \<Rightarrow> (exn + unit) \<times> 'g world" where
  "create_partition env w database table partition_arg location =
     (case get_client env w of
        (Inl e, w0) \<Rightarrow> (Inl e, w0)
      | (Inr c, w0) \<Rightarrow>
          (case get_partition env w0 database table partition_arg of
             (Inl e, w1) \<Rightarrow> (Inl e, w1)
           | (Inr (Some existing), w1) \<Rightarrow> (Inr (), logger WARNING AlreadyExists w1)
           | (Inr None, w1) \<Rightarrow>
               (let partition_str = map py_str partition_arg;
                    w2 = logger DEBUG (Creating partition_str location) w1
                in case client_create_partition env w2 database table (create_input partition_str location) of
                     (Inr response, w3) \<Rightarrow>
                       (Inr (), if HTTPStatusCode response = 200 then logger DEBUG Created w3 else w3)
                   | (Inl e, w3) \<Rightarrow>
                       (Inr (), logger ERROR (Raised e)
                                  (logger ERROR (CreateFailed partition_str database table) w3)))))"

definition update_partition ::
  "'g glue_api \<Rightarrow> 'g world \<Rightarrow> string \<Rightarrow> string \<Rightarrow> pyval list \<Rightarrow> string \<Rightarrow> (exn + unit) \<times> 'g world" where
  "update_partition env w database table partition_arg location =
     (case get_client env w of
        (Inl e, w0) \<Rightarrow> (Inl e, w0)
      | (Inr c, w0) \<Rightarrow>
          (let partition_str = map py_str partition_arg
           in case client_update_partition env w0 database table partition_str (update_input partition_str location) of
                (Inr response, w1) \<Rightarrow>
                  (Inr (), if HTTPStatusCode response = 200 then logger DEBUG Updated w1
                           else logger ERROR (UpdateStatus (HTTPStatusCode response)) w1)
              | (Inl e, w1) \<Rightarrow>
                  (Inr (), logger ERROR (Raised e)
                             (logger ERROR (UpdateFailed partition_str database table) w1))))"

subsection \<open>The state at start, and two services to run the module against\<close>

text \<open>The class attributes as the class body sets them: no client, an empty cache.\<close>

definition initial :: "'g \<Rightarrow> 'g world" where
  "initial g = \<lparr>client_glue = None, cache = Map.empty, service = g, requests = [], log = []\<rparr>"

text \<open>
  A catalog of one table held in memory, its state the list of the table's
  partitions. A listing gives pages of at most \<open>page_cap\<close> entries; the token of a
  page is as long as the number of entries before it.
\<close>

definition memory_glue :: "nat \<Rightarrow> (partition list) glue_api" where
  "memory_glue page_cap =
     \<lparr>boto3_client = Inr GlueClient,
      api_get_partition = (\<lambda>g database table vs.
         (case find (\<lambda>p. Values p = vs) g of
            None \<Rightarrow> Inl EntityNotFoundException
          | Some p \<Rightarrow> Inr \<lparr>Partition = p\<rparr>, g)),
      api_get_partitions = (\<lambda>g database table n ex tok.
         (let k = length tok; m = min n page_cap
          in (Inr \<lparr>Partitions = take m (drop k g),
                   NextToken = (if k + m < length g then Some (replicate (k + m) CHR ''x'') else None)\<rparr>, g))),
      api_create_partition = (\<lambda>g database table inp.
         (if InValues inp \<in> set (map Values g)
          then (Inl (OtherException ''AlreadyExistsException''), g)
          else (Inr \<lparr>HTTPStatusCode = 200\<rparr>,
                g @ [\<lparr>Values = InValues inp, Location = SdLocation (StorageDescriptor inp)\<rparr>]))),
      api_update_partition = (\<lambda>g database table vs inp.
         (if vs \<in> set (map Values g)
          then (Inr \<lparr>HTTPStatusCode = 200\<rparr>,
                map (\<lambda>p. if Values p = vs then p\<lparr>Location := SdLocation (StorageDescriptor inp)\<rparr> else p) g)
          else (Inl EntityNotFoundException, g)))\<rparr>"

text \<open>A service without state that gives the same answer to every request of a kind.\<close>

definition constant_glue ::
  "(exn + get_partition_response) \<Rightarrow> (exn + write_response) \<Rightarrow> (exn + write_response) \<Rightarrow> unit glue_api" where
  "constant_glue answer_get answer_create answer_update =
     \<lparr>boto3_client = Inr GlueClient,
      api_get_partition = (\<lambda>g database table vs. (answer_get, g)),
      api_get_partitions = (\<lambda>g database table n ex tok. (Inl EntityNotFoundException, g)),
      api_create_partition = (\<lambda>g database table inp. (answer_create, g)),
      api_update_partition = (\<lambda>g database table vs inp. (answer_update, g))\<rparr>"

subsection \<open>Pages of a listing, and sequences of calls\<close>

text \<open>
  \<open>paged env g database table tok script\<close>: the service, from state \<open>g\<close>, answers
  the listing requests of the loop (500 entries at most, no column schema) that start
  at token \<open>tok\<close> with the pages of \<open>script\<close>, one after the other, each entry of the
  script giving the token sent and the page received, and only the last response has
  no continuation token. The result is the state of the service after the last page.
\<close>

fun paged ::
  "'g glue_api \<Rightarrow> 'g \<Rightarrow> string \<Rightarrow> string \<Rightarrow> string \<Rightarrow> (string \<times> partition list) list \<Rightarrow> 'g option" where
  "paged env g database table tok [] = None"
| "paged env g database table tok ((tk, page) # rest) =
     (if tk \<noteq> tok then None
      else case api_get_partitions env g database table 500 True tok of
             (Inl e, g1) \<Rightarrow> None
           | (Inr response, g1) \<Rightarrow>
               (if Partitions response \<noteq> page then None
                else case NextToken response of
                       None \<Rightarrow> (if rest = [] then Some g1 else None)
                     | Some tok' \<Rightarrow> (if rest = [] then None else paged env g1 database table tok' rest)))"

text \<open>
  A program that uses the module is a sequence of calls of its class methods. The class
  attributes outlive a call that raises, so the next call starts from the state that
  the call before it has left, whether it returned or raised; a call that never
  returns has no next call.
\<close>

datatype call =
    GetClient
  | GetPartition string string "pyval list"
  | GetAllPartitions string string bool
  | CreatePartition string string "pyval list" string
  | UpdatePartition string string "pyval list" string
  | GetLastPartition string string bool

fun run_call :: "'g glue_api \<Rightarrow> call \<Rightarrow> 'g world \<Rightarrow> 'g world option" where
  "run_call env GetClient w = Some (snd (get_client env w))"
| "run_call env (GetPartition database table key) w =
     Some (snd (get_partition env w database table key))"
| "run_call env (GetAllPartitions database table only_first_value) w =
     map_option snd (get_all_partitions env w database table only_first_value)"
| "run_call env (CreatePartition database table key location) w =
     Some (snd (create_partition env w database table key location))"
| "run_call env (UpdatePartition database table key location) w =
     Some (snd (update_partition env w database table key location))"
| "run_call env (GetLastPartition database table only_first_value) w =
     map_option snd (get_last_partition env w database table only_first_value)"

fun run_calls :: "'g glue_api \<Rightarrow> call list \<Rightarrow> 'g world \<Rightarrow> 'g world option" where
  "run_calls env [] w = Some w"
| "run_calls env (c # cs) w =
     (case run_call env c w of None \<Rightarrow> None | Some w' \<Rightarrow> run_calls env cs w')"

text \<open>The first component of a full key, as an element of a listing of first values.\<close>

fun first_component :: "item \<Rightarrow> item" where
  "first_component (Lst (v # vs)) = Str v"
| "first_component x = x"

text \<open>
  \<open>stored\<close> is the assignment \<^verbatim>\<open>cls._cache[f"{database}.{table}"] = partitions\<close>.
  \<open>cache_ok\<close>: no cached key is an empty list.
\<close>

definition stored :: "string \<Rightarrow> string \<Rightarrow> string list list \<Rightarrow> 'g world \<Rightarrow> 'g world" where
  "stored database table ps w = w\<lparr>cache := (cache w)(cache_key database table \<mapsto> ps)\<rparr>"

definition cache_ok :: "'g world \<Rightarrow> bool" where
  "cache_ok w = (\<forall>k ps. cache w k = Some ps \<longrightarrow> [] \<notin> set ps)"

text \<open>
  What the loop has in \<^verbatim>\<open>partitions\<close> after the pages of a script: the keys of each
  page, sorted within the page, one page after the other; and the requests it has sent.
\<close>

definition aggregated :: "(string \<times> partition list) list \<Rightarrow> string list list" where
  "aggregated script = concat (map (\<lambda>(tk, page). map Values (sort_desc page)) script)"

definition listing_requests :: "string \<Rightarrow> string \<Rightarrow> (string \<times> partition list) list \<Rightarrow> request list" where
  "listing_requests database table script =
     map (\<lambda>(tk, page). GetPartitionsReq database table 500 True tk) script"

text \<open>
  A table of three monthly partitions, in the order in which the in-memory catalog
  lists them, and the state after a first listing of it in pages of two entries.
\<close>

definition demo_catalog :: "partition list" where
  "demo_catalog =
     [\<lparr>Values = [''2024-01''], Location = ''s3://sales/2024-01''\<rparr>,
      \<lparr>Values = [''2024-02''], Location = ''s3://sales/2024-02''\<rparr>,
      \<lparr>Values = [''2024-03''], Location = ''s3://sales/2024-03''\<rparr>]"

definition demo_script :: "(string \<times> partition list) list" where
  "demo_script =
     [('''', [\<lparr>Values = [''2024-01''], Location = ''s3://sales/2024-01''\<rparr>,
              \<lparr>Values = [''2024-02''], Location = ''s3://sales/2024-02''\<rparr>]),
      (''xx'', [\<lparr>Values = [''2024-03''], Location = ''s3://sales/2024-03''\<rparr>])]"

definition demo_listed :: "partition list world" where
  "demo_listed =
     \<lparr>client_glue = Some GlueClient,
      cache = [''sales.transactions'' \<mapsto> [[''2024-02''], [''2024-01''], [''2024-03'']]],
      service = demo_catalog,
      requests = [GetPartitionsReq ''sales'' ''transactions'' 500 True '''',
                  GetPartitionsReq ''sales'' ''transactions'' 500 True ''xx''],
      log = []\<rparr>"

section \<open>Properties\<close>

subsection \<open>get_client\<close>

lemma get_client_frame:
  "get_client env w = (r, w0) \<Longrightarrow>
     cache w0 = cache w \<and> service w0 = service w \<and> requests w0 = requests w \<and> log w0 = log w"
  by (auto simp: get_client_def split: option.splits sum.splits)

lemma get_client_Inr:
  "get_client env w = (Inr c, w0) \<Longrightarrow> client_glue w0 = Some c"
  by (auto simp: get_client_def split: option.splits sum.splits)

lemma get_client_Inl:
  "get_client env w = (Inl e, w0) \<Longrightarrow> w0 = w"
  by (auto simp: get_client_def split: option.splits sum.splits)

lemma get_client_again:
  "get_client env w = (Inr c, w0) \<Longrightarrow> get_client env w0 = (Inr c, w0)"
  by (auto simp: get_client_def split: option.splits sum.splits)

lemma get_client_present:
  "client_glue w = Some c \<Longrightarrow> get_client env w = (Inr c, w)"
  by (simp add: get_client_def)

subsection \<open>get_partition\<close>

text \<open>
  C4. When the service answers the request for a key with its not-found error (the key
  is not in the table), \<open>get_partition\<close> returns \<^verbatim>\<open>None\<close> and raises nothing: the
  only effects are the request itself and one record in the log, at level WARNING.
\<close>

theorem get_partition_not_found:
  assumes "get_client env w = (Inr c, w0)"
    and "api_get_partition env (service w0) database table (map py_str key) = (Inl EntityNotFoundException, g)"
  shows "get_partition env w database table key =
           (Inr None,
            logger WARNING (PartitionMissing (map py_str key) database table)
              (send (GetPartitionReq database table (map py_str key)) g w0))"
  using assms by (simp add: get_partition_def client_get_partition_def Let_def)

theorem get_partition_not_found_witness:
  "get_client (memory_glue 2) (initial [\<lparr>Values = [''2024'', ''01''], Location = ''s3://a''\<rparr>])
     = (Inr GlueClient, (initial [\<lparr>Values = [''2024'', ''01''], Location = ''s3://a''\<rparr>])\<lparr>client_glue := Some GlueClient\<rparr>)
   \<and> api_get_partition (memory_glue 2)
        [\<lparr>Values = [''2024'', ''01''], Location = ''s3://a''\<rparr>] ''sales'' ''transactions'' [''2024'', ''2'']
     = (Inl EntityNotFoundException, [\<lparr>Values = [''2024'', ''01''], Location = ''s3://a''\<rparr>])
   \<and> get_partition (memory_glue 2) (initial [\<lparr>Values = [''2024'', ''01''], Location = ''s3://a''\<rparr>])
        ''sales'' ''transactions'' [PyStr ''2024'', PyInt 2]
     = (Inr None,
        \<lparr>client_glue = Some GlueClient, cache = Map.empty,
         service = [\<lparr>Values = [''2024'', ''01''], Location = ''s3://a''\<rparr>],
         requests = [GetPartitionReq ''sales'' ''transactions'' [''2024'', ''2'']],
         log = [(WARNING, PartitionMissing [''2024'', ''2''] ''sales'' ''transactions'')]\<rparr>)"
proof -
  let ?g = "[\<lparr>Values = [''2024'', ''01''], Location = ''s3://a''\<rparr>]"
  let ?w0 = "(initial ?g)\<lparr>client_glue := Some GlueClient\<rparr>"
  have str: "map py_str [PyStr ''2024'', PyInt 2] = [''2024'', ''2'']"
    by (simp add: digits.simps digit_char_def)
  have c: "get_client (memory_glue 2) (initial ?g) = (Inr GlueClient, ?w0)"
    by (simp add: get_client_def create_client_def memory_glue_def initial_def)
  have a: "api_get_partition (memory_glue 2) (service ?w0) ''sales'' ''transactions''
             (map py_str [PyStr ''2024'', PyInt 2]) = (Inl EntityNotFoundException, ?g)"
    by (simp add: digits.simps digit_char_def memory_glue_def initial_def)
  show ?thesis
    using get_partition_not_found [OF c a] c a
    by (simp add: digits.simps digit_char_def logger_def send_def initial_def)
qed

subsection \<open>The listing loop\<close>

lemma set_sort_desc: "set (sort_desc page) = set page"
  by (simp add: sort_desc_def)

lemma length_sort_desc: "length (sort_desc page) = length page"
  by (simp add: sort_desc_def)

text \<open>Within one page the order is the descending order of the first value.\<close>

lemma sort_desc_sorted:
  "sorted_wrt (\<lambda>p q. hd (Values q) \<le> hd (Values p)) (sort_desc page)"
proof -
  have "sorted (map (\<lambda>x. hd (Values x)) (sort_key (\<lambda>x. hd (Values x)) (rev page)))"
    by (rule sorted_sort_key)
  then have "sorted_wrt (\<lambda>p q. hd (Values p) \<le> hd (Values q)) (sort_key (\<lambda>x. hd (Values x)) (rev page))"
    by (simp add: sorted_wrt_map)
  then show ?thesis
    by (simp add: sort_desc_def sorted_wrt_rev)
qed

lemma sorted_reverse_nonempty:
  "sorted_reverse page = Inr sorted_page \<Longrightarrow> [] \<notin> set (map Values sorted_page)"
  by (auto simp: sorted_reverse_def set_sort_desc split: if_splits)

lemma client_get_partitions_frame:
  "client_get_partitions env w database table n ex tok = (r, w1) \<Longrightarrow>
     client_glue w1 = client_glue w \<and> cache w1 = cache w \<and> log w1 = log w"
  by (auto simp: client_get_partitions_def send_def split: prod.splits)

text \<open>
  Whatever the loop returns, it has left the client, the cache and the log as they
  were, it has only added keys to \<^verbatim>\<open>partitions\<close>, and none of the added keys is empty.
\<close>

lemma fetch_pages_post:
  "fetch_pages env database table tok acc w = Some res \<Longrightarrow>
     client_glue (snd (snd res)) = client_glue w \<and> cache (snd (snd res)) = cache w \<and>
     log (snd (snd res)) = log w \<and> (\<exists>more. fst (snd res) = acc @ more \<and> [] \<notin> set more)"
proof (induction rule: fetch_pages.raw_induct [rotated 1, consumes 1, case_names step])
  case (step fetch env database table tok acc w res)
  obtain a w1 where Pair: "client_get_partitions env w database table 500 True tok = (a, w1)"
    by (cases "client_get_partitions env w database table 500 True tok")
  note fr = client_get_partitions_frame [OF Pair]
  show ?case
  proof (cases a)
    case (Inl e)
    with step(2) Pair have "res = (Inl e, acc, w1)" by simp
    with fr show ?thesis by simp
  next
    case (Inr response)
    show ?thesis
    proof (cases "sorted_reverse (Partitions response)")
      case (Inl e)
      with step(2) Pair Inr have "res = (Inl e, acc, w1)" by simp
      with fr show ?thesis by simp
    next
      case sr: (Inr page)
      have ne: "[] \<notin> set (map Values page)" by (rule sorted_reverse_nonempty [OF sr])
      show ?thesis
      proof (cases "NextToken response")
        case None
        with step(2) Pair Inr sr have "res = (Inr (), acc @ map Values page, w1)" by simp
        with fr ne show ?thesis by simp
      next
        case (Some tok')
        with step(2) Pair Inr sr
        have "fetch env database table tok' (acc @ map Values page) w1 = Some res" by simp
        from step(1) [OF this] obtain more where
          a: "client_glue (snd (snd res)) = client_glue w1" "cache (snd (snd res)) = cache w1"
             "log (snd (snd res)) = log w1"
          and m: "fst (snd res) = (acc @ map Values page) @ more" "[] \<notin> set more"
          by blast
        from m ne have "fst (snd res) = acc @ (map Values page @ more) \<and> [] \<notin> set (map Values page @ more)"
          by simp
        then have "\<exists>more. fst (snd res) = acc @ more \<and> [] \<notin> set more" by blast
        with a fr show ?thesis by simp
      qed
    qed
  qed
qed

subsection \<open>What the operations leave unchanged\<close>

lemma get_partition_frame:
  "get_partition env w database table key = (r, w') \<Longrightarrow>
     cache w' = cache w \<and> (client_glue w \<noteq> None \<longrightarrow> client_glue w' = client_glue w)"
  by (auto simp: get_partition_def get_client_def client_get_partition_def send_def logger_def Let_def
           split: option.splits sum.splits prod.splits exn.splits)

lemma create_partition_frame:
  "create_partition env w database table key location = (r, w') \<Longrightarrow>
     cache w' = cache w \<and> (client_glue w \<noteq> None \<longrightarrow> client_glue w' = client_glue w)"
  by (auto simp: create_partition_def get_partition_def get_client_def client_get_partition_def
                 client_create_partition_def send_def logger_def Let_def
           split: option.splits sum.splits prod.splits exn.splits if_splits)

lemma update_partition_frame:
  "update_partition env w database table key location = (r, w') \<Longrightarrow>
     cache w' = cache w \<and> (client_glue w \<noteq> None \<longrightarrow> client_glue w' = client_glue w)"
  by (auto simp: update_partition_def get_client_def client_update_partition_def send_def logger_def Let_def
           split: option.splits sum.splits prod.splits exn.splits if_splits)

subsection \<open>create_partition and update_partition\<close>

lemma get_partition_found:
  assumes "get_client env w = (Inr c, w0)"
    and "api_get_partition env (service w0) database table (map py_str key) = (Inr existing, g)"
  shows "get_partition env w database table key =
           (Inr (Some existing), send (GetPartitionReq database table (map py_str key)) g w0)"
  using assms by (simp add: get_partition_def client_get_partition_def Let_def)

lemma get_partition_raises:
  assumes "get_client env w = (Inr c, w0)"
    and "api_get_partition env (service w0) database table (map py_str key) = (Inl e, g)"
    and "e \<noteq> EntityNotFoundException"
  shows "get_partition env w database table key =
           (Inl e, send (GetPartitionReq database table (map py_str key)) g w0)"
  using assms by (cases e) (simp_all add: get_partition_def client_get_partition_def Let_def)

text \<open>
  C5. \<open>create_partition\<close> asks \<open>get_partition\<close> first. When the service answers
  that request with the partition (it exists already), \<open>create_partition\<close> logs one
  warning and returns \<^verbatim>\<open>None\<close>: the request of the check is the only request sent, no
  create request follows and nothing is raised. A second call with the key of a first
  call that created the partition is such a call, so it changes nothing in the catalog.
\<close>

theorem create_partition_existing:
  assumes "get_client env w = (Inr c, w0)"
    and "api_get_partition env (service w0) database table (map py_str key) = (Inr existing, g)"
  shows "create_partition env w database table key location =
           (Inr (), logger WARNING AlreadyExists
                      (send (GetPartitionReq database table (map py_str key)) g w0))"
proof -
  have "get_partition env w0 database table key =
          (Inr (Some existing), send (GetPartitionReq database table (map py_str key)) g w0)"
    by (rule get_partition_found [OF get_client_again [OF assms(1)] assms(2)])
  with assms(1) show ?thesis by (simp add: create_partition_def)
qed

theorem create_partition_existing_witness:
  "create_partition (memory_glue 2) (initial []) ''sales'' ''transactions'' [PyStr ''2024'', PyInt 3] ''s3://b''
     = (Inr (),
        \<lparr>client_glue = Some GlueClient, cache = Map.empty,
         service = [\<lparr>Values = [''2024'', ''3''], Location = ''s3://b''\<rparr>],
         requests = [GetPartitionReq ''sales'' ''transactions'' [''2024'', ''3''],
                     CreatePartitionReq ''sales'' ''transactions'' (create_input [''2024'', ''3''] ''s3://b'')],
         log = [(WARNING, PartitionMissing [''2024'', ''3''] ''sales'' ''transactions''),
                (DEBUG, Creating [''2024'', ''3''] ''s3://b''), (DEBUG, Created)]\<rparr>)
   \<and> create_partition (memory_glue 2)
        \<lparr>client_glue = Some GlueClient, cache = Map.empty,
         service = [\<lparr>Values = [''2024'', ''3''], Location = ''s3://b''\<rparr>],
         requests = [GetPartitionReq ''sales'' ''transactions'' [''2024'', ''3''],
                     CreatePartitionReq ''sales'' ''transactions'' (create_input [''2024'', ''3''] ''s3://b'')],
         log = [(WARNING, PartitionMissing [''2024'', ''3''] ''sales'' ''transactions''),
                (DEBUG, Creating [''2024'', ''3''] ''s3://b''), (DEBUG, Created)]\<rparr>
        ''sales'' ''transactions'' [PyStr ''2024'', PyInt 3] ''s3://b''
     = (Inr (),
        \<lparr>client_glue = Some GlueClient, cache = Map.empty,
         service = [\<lparr>Values = [''2024'', ''3''], Location = ''s3://b''\<rparr>],
         requests = [GetPartitionReq ''sales'' ''transactions'' [''2024'', ''3''],
                     CreatePartitionReq ''sales'' ''transactions'' (create_input [''2024'', ''3''] ''s3://b''),
                     GetPartitionReq ''sales'' ''transactions'' [''2024'', ''3'']],
         log = [(WARNING, PartitionMissing [''2024'', ''3''] ''sales'' ''transactions''),
                (DEBUG, Creating [''2024'', ''3''] ''s3://b''), (DEBUG, Created),
                (WARNING, AlreadyExists)]\<rparr>)"
proof -
  let ?p = "\<lparr>Values = [''2024'', ''3''], Location = ''s3://b''\<rparr>"
  let ?w1 = "\<lparr>client_glue = Some GlueClient, cache = Map.empty, service = [?p],
         requests = [GetPartitionReq ''sales'' ''transactions'' [''2024'', ''3''],
                     CreatePartitionReq ''sales'' ''transactions'' (create_input [''2024'', ''3''] ''s3://b'')],
         log = [(WARNING, PartitionMissing [''2024'', ''3''] ''sales'' ''transactions''),
                (DEBUG, Creating [''2024'', ''3''] ''s3://b''), (DEBUG, Created)]\<rparr>"
  have first: "create_partition (memory_glue 2) (initial []) ''sales'' ''transactions''
                 [PyStr ''2024'', PyInt 3] ''s3://b'' = (Inr (), ?w1)"
    by (simp add: create_partition_def get_partition_def get_client_def create_client_def
          client_get_partition_def client_create_partition_def memory_glue_def initial_def
          send_def logger_def Let_def create_input_def digits.simps digit_char_def)
  have c: "get_client (memory_glue 2) ?w1 = (Inr GlueClient, ?w1)"
    by (simp add: get_client_def)
  have a: "api_get_partition (memory_glue 2) (service ?w1) ''sales'' ''transactions''
             (map py_str [PyStr ''2024'', PyInt 3]) = (Inr \<lparr>Partition = ?p\<rparr>, [?p])"
    by (simp add: memory_glue_def digits.simps digit_char_def)
  show ?thesis
    using create_partition_existing [OF c a, of "''s3://b''"] first
    by (simp add: digits.simps digit_char_def logger_def send_def)
qed

text \<open>
  C10. The check is outside the \<^verbatim>\<open>try\<close> block: when the service answers the request
  of the check with an exception other than not-found, \<open>create_partition\<close> raises
  that exception, and has sent no create request.
\<close>

theorem create_partition_check_raises:
  assumes "get_client env w = (Inr c, w0)"
    and "api_get_partition env (service w0) database table (map py_str key) = (Inl e, g)"
    and "e \<noteq> EntityNotFoundException"
  shows "create_partition env w database table key location =
           (Inl e, send (GetPartitionReq database table (map py_str key)) g w0)"
proof -
  have "get_partition env w0 database table key =
          (Inl e, send (GetPartitionReq database table (map py_str key)) g w0)"
    by (rule get_partition_raises [OF get_client_again [OF assms(1)] assms(2) assms(3)])
  with assms(1) show ?thesis by (simp add: create_partition_def)
qed

theorem create_partition_check_raises_witness:
  "get_client (constant_glue (Inl (OtherException ''AccessDeniedException''))
                 (Inr \<lparr>HTTPStatusCode = 200\<rparr>) (Inr \<lparr>HTTPStatusCode = 200\<rparr>)) (initial ())
     = (Inr GlueClient, (initial ())\<lparr>client_glue := Some GlueClient\<rparr>)
   \<and> OtherException ''AccessDeniedException'' \<noteq> EntityNotFoundException
   \<and> create_partition (constant_glue (Inl (OtherException ''AccessDeniedException''))
                 (Inr \<lparr>HTTPStatusCode = 200\<rparr>) (Inr \<lparr>HTTPStatusCode = 200\<rparr>)) (initial ())
        ''sales'' ''transactions'' [PyStr ''2024''] ''s3://b''
     = (Inl (OtherException ''AccessDeniedException''),
        \<lparr>client_glue = Some GlueClient, cache = Map.empty, service = (),
         requests = [GetPartitionReq ''sales'' ''transactions'' [''2024'']], log = []\<rparr>)"
proof -
  let ?env = "constant_glue (Inl (OtherException ''AccessDeniedException''))
                 (Inr \<lparr>HTTPStatusCode = 200\<rparr>) (Inr \<lparr>HTTPStatusCode = 200\<rparr>)"
  let ?w0 = "(initial ())\<lparr>client_glue := Some GlueClient\<rparr>"
  have c: "get_client ?env (initial ()) = (Inr GlueClient, ?w0)"
    by (simp add: get_client_def create_client_def constant_glue_def initial_def)
  have a: "api_get_partition ?env (service ?w0) ''sales'' ''transactions'' (map py_str [PyStr ''2024''])
             = (Inl (OtherException ''AccessDeniedException''), ())"
    by (simp add: constant_glue_def)
  have n: "OtherException ''AccessDeniedException'' \<noteq> EntityNotFoundException" by simp
  show ?thesis
    using create_partition_check_raises [OF c a n, of "''s3://b''"] c
    by (simp add: send_def initial_def)
qed






subsection \<open>get_all_partitions\<close>

lemma listing_False: "listing False ps = Inr (map Lst ps)"
  by (simp add: listing_def)

lemma listing_nonempty:
  "[] \<notin> set ps \<Longrightarrow> listing f ps = Inr (if f then map (\<lambda>p. Str (hd p)) ps else map Lst ps)"
  by (simp add: listing_def first_values_def)

lemma listing_length: "listing f ps = Inr r \<Longrightarrow> length r = length ps"
  by (auto simp: listing_def first_values_def split: if_splits)

lemma get_all_partitions_hit:
  assumes "get_client env w = (Inr c, w0)" and "cache w0 (cache_key database table) = Some ps"
  shows "get_all_partitions env w database table f = Some (listing f ps, w0)"
  using assms by (simp add: get_all_partitions_def)

lemma get_all_partitions_miss:
  assumes c: "get_client env w = (Inr c, w0)" and m: "cache w0 (cache_key database table) = None"
    and r: "get_all_partitions env w database table f = Some (r, w')"
  shows "\<exists>x ps w1. fetch_pages env database table '''' [] w0 = Some (x, ps, w1) \<and>
           client_glue w1 = client_glue w0 \<and> cache w1 = cache w0 \<and> [] \<notin> set ps \<and>
           ((x = Inr () \<and> r = listing f ps \<and> w' = stored database table ps w1) \<or>
            (x = Inl EntityNotFoundException \<and> r = listing f ps \<and>
             w' = stored database table ps (logger WARNING (FetchFailed database table) w1)) \<or>
            (\<exists>e. x = Inl e \<and> e \<noteq> EntityNotFoundException \<and> r = Inl e \<and> w' = w1))"
proof (cases "fetch_pages env database table '''' [] w0")
  case None
  with c m r show ?thesis by (simp add: get_all_partitions_def)
next
  case (Some res)
  obtain x ps w1 where res: "res = (x, ps, w1)" by (cases res)
  from fetch_pages_post [OF Some] res
  have post: "client_glue w1 = client_glue w0" "cache w1 = cache w0" "[] \<notin> set ps"
    by auto
  show ?thesis
  proof (cases x)
    case (Inr u)
    with c m r Some res have "r = listing f ps \<and> w' = stored database table ps w1"
      by (simp add: get_all_partitions_def stored_def)
    with Some res post Inr show ?thesis by simp
  next
    case (Inl e)
    show ?thesis
    proof (cases "e = EntityNotFoundException")
      case True
      with c m r Some res Inl
      have "r = listing f ps \<and>
            w' = stored database table ps (logger WARNING (FetchFailed database table) w1)"
        by (simp add: get_all_partitions_def stored_def Let_def)
      with Some res post Inl True show ?thesis by simp
    next
      case False
      with c m r Some res Inl have "r = Inl e \<and> w' = w1"
        by (cases e) (simp_all add: get_all_partitions_def)
      with Some res post Inl False show ?thesis by simp
    qed
  qed
qed

lemma get_all_partitions_post:
  assumes r: "get_all_partitions env w database table f = Some (r, w')"
  shows "(client_glue w \<noteq> None \<longrightarrow> client_glue w' = client_glue w) \<and>
         (\<forall>k ps. cache w k = Some ps \<longrightarrow> cache w' k = Some ps) \<and>
         (cache_ok w \<longrightarrow> cache_ok w') \<and>
         (\<forall>x. r = Inr x \<longrightarrow> client_glue w' \<noteq> None \<and>
                (\<exists>ps. cache w' (cache_key database table) = Some ps \<and> listing f ps = Inr x))"
proof -
  obtain a w0 where g: "get_client env w = (a, w0)" by (cases "get_client env w")
  note gf = get_client_frame [OF g]
  show ?thesis
  proof (cases a)
    case (Inl e)
    with g r have "r = Inl e \<and> w' = w0" by (simp add: get_all_partitions_def)
    moreover from g Inl have "w0 = w" by (simp add: get_client_Inl)
    ultimately show ?thesis by simp
  next
    case (Inr c)
    with g have c: "get_client env w = (Inr c, w0)" by simp
    have c0: "client_glue w0 = Some c" by (rule get_client_Inr [OF c])
    have cm: "client_glue w \<noteq> None \<longrightarrow> client_glue w0 = client_glue w"
      using c by (auto simp: get_client_def split: option.splits sum.splits)
    have ok0: "cache_ok w0 = cache_ok w" using gf by (simp add: cache_ok_def)
    show ?thesis
    proof (cases "cache w0 (cache_key database table)")
      case (Some ps)
      from r get_all_partitions_hit [OF c Some, of f] have "r = listing f ps \<and> w' = w0" by simp
      with Some c0 cm gf ok0 show ?thesis by auto
    next
      case None
      from get_all_partitions_miss [OF c None r] obtain x ps w1 where
        f: "client_glue w1 = client_glue w0" "cache w1 = cache w0" "[] \<notin> set ps"
        and d: "(x = Inr () \<and> r = listing f ps \<and> w' = stored database table ps w1) \<or>
            (x = Inl EntityNotFoundException \<and> r = listing f ps \<and>
             w' = stored database table ps (logger WARNING (FetchFailed database table) w1)) \<or>
            (\<exists>e. x = Inl e \<and> e \<noteq> EntityNotFoundException \<and> r = Inl e \<and> w' = w1)"
        by blast
      from d show ?thesis
      proof (elim disjE conjE exE)
        assume "r = listing f ps" "w' = stored database table ps w1"
        with f c0 cm gf None show ?thesis
          by (auto simp: stored_def cache_ok_def)
      next
        assume "r = listing f ps"
          "w' = stored database table ps (logger WARNING (FetchFailed database table) w1)"
        with f c0 cm gf None show ?thesis
          by (auto simp: stored_def logger_def cache_ok_def)
      next
        fix e assume "r = Inl e" "w' = w1"
        with f c0 cm gf show ?thesis by (auto simp: cache_ok_def)
      qed
    qed
  qed
qed

subsection \<open>Sequences of calls\<close>

lemma get_last_partition_post:
  assumes "get_last_partition env w database table f = Some (r, w')"
  shows "\<exists>r0. get_all_partitions env w database table f = Some (r0, w')"
  using assms
  by (auto simp: get_last_partition_def split: option.splits sum.splits list.splits prod.splits)

lemma run_call_inv:
  assumes "run_call env c w = Some w'"
  shows "(client_glue w \<noteq> None \<longrightarrow> client_glue w' = client_glue w) \<and>
         (\<forall>k ps. cache w k = Some ps \<longrightarrow> cache w' k = Some ps) \<and>
         (cache_ok w \<longrightarrow> cache_ok w')"
proof (cases c)
  case GetClient
  with assms have g: "get_client env w = (fst (get_client env w), w')"
    by (simp add: prod_eq_iff)
  have "client_glue w \<noteq> None \<longrightarrow> client_glue w' = client_glue w"
    using g by (auto simp: get_client_def split: option.splits sum.splits)
  with get_client_frame [OF g] show ?thesis by (simp add: cache_ok_def)
next
  case (GetPartition database table key)
  with assms have "get_partition env w database table key = (fst (get_partition env w database table key), w')"
    by (simp add: prod_eq_iff)
  from get_partition_frame [OF this] show ?thesis by (simp add: cache_ok_def)
next
  case (GetAllPartitions database table f)
  with assms obtain r where "get_all_partitions env w database table f = Some (r, w')"
    by auto
  from get_all_partitions_post [OF this] show ?thesis by blast
next
  case (CreatePartition database table key location)
  with assms have "create_partition env w database table key location =
      (fst (create_partition env w database table key location), w')"
    by (simp add: prod_eq_iff)
  from create_partition_frame [OF this] show ?thesis by (simp add: cache_ok_def)
next
  case (UpdatePartition database table key location)
  with assms have "update_partition env w database table key location =
      (fst (update_partition env w database table key location), w')"
    by (simp add: prod_eq_iff)
  from update_partition_frame [OF this] show ?thesis by (simp add: cache_ok_def)
next
  case (GetLastPartition database table f)
  with assms obtain r where "get_last_partition env w database table f = Some (r, w')"
    by auto
  from get_last_partition_post [OF this] obtain r0 where
    "get_all_partitions env w database table f = Some (r0, w')" by blast
  from get_all_partitions_post [OF this] show ?thesis by blast
qed

lemma run_calls_inv:
  "run_calls env cs w = Some w' \<Longrightarrow>
     (client_glue w \<noteq> None \<longrightarrow> client_glue w' = client_glue w) \<and>
     (\<forall>k ps. cache w k = Some ps \<longrightarrow> cache w' k = Some ps) \<and>
     (cache_ok w \<longrightarrow> cache_ok w')"
proof (induction cs arbitrary: w)
  case Nil
  then show ?case by simp
next
  case (Cons c cs)
  then obtain w1 where 1: "run_call env c w = Some w1" and 2: "run_calls env cs w1 = Some w'"
    by (auto split: option.splits)
  from run_call_inv [OF 1] Cons.IH [OF 2] show ?case by auto
qed

lemma cache_ok_initial: "cache_ok (initial g)"
  by (simp add: cache_ok_def initial_def)

subsection \<open>Listings\<close>

lemma first_component_Lst:
  "[] \<notin> set ps \<Longrightarrow> map first_component (map Lst ps) = map (\<lambda>p. Str (hd p)) ps"
proof (induction ps)
  case Nil
  show ?case by simp
next
  case (Cons p ps)
  then show ?case by (cases p) auto
qed

lemma listing_True:
  "[] \<notin> set ps \<Longrightarrow> listing True ps = Inr (map first_component (map Lst ps))"
  using first_component_Lst [of ps] by (simp add: listing_def first_values_def)

lemma get_all_partitions_flag:
  assumes ok: "cache_ok w"
  shows "get_all_partitions env w database table True =
           (case get_all_partitions env w database table False of
              None \<Rightarrow> None
            | Some (r, w') \<Rightarrow>
                Some (case r of Inl e \<Rightarrow> Inl e | Inr full \<Rightarrow> Inr (map first_component full), w'))"
proof -
  obtain a w0 where g: "get_client env w = (a, w0)" by (cases "get_client env w")
  show ?thesis
  proof (cases a)
    case (Inl e)
    with g show ?thesis by (simp add: get_all_partitions_def)
  next
    case (Inr c)
    with g have c: "get_client env w = (Inr c, w0)" by simp
    show ?thesis
    proof (cases "cache w0 (cache_key database table)")
      case (Some ps)
      with get_client_frame [OF c] ok have "[] \<notin> set ps" by (auto simp: cache_ok_def)
      then have "listing True ps = Inr (map first_component (map Lst ps))" by (rule listing_True)
      with get_all_partitions_hit [OF c Some] show ?thesis by (simp add: listing_False)
    next
      case None
      show ?thesis
      proof (cases "fetch_pages env database table '''' [] w0")
        case fn: None
        with c None show ?thesis by (simp add: get_all_partitions_def)
      next
        case (Some res)
        obtain x ps w1 where res: "res = (x, ps, w1)" by (cases res)
        from fetch_pages_post [OF Some] res have "[] \<notin> set ps" by auto
        then have l: "listing True ps = Inr (map first_component (map Lst ps))" by (rule listing_True)
        show ?thesis
        proof (cases x)
          case (Inr u)
          with c None Some res l show ?thesis by (simp add: get_all_partitions_def listing_False)
        next
          case (Inl e)
          with c None Some res l show ?thesis
            by (cases e) (simp_all add: get_all_partitions_def listing_False Let_def)
        qed
      qed
    qed
  qed
qed

text \<open>
  C3. In every state that a sequence of calls reaches from the state at start, for
  every service: the listing of first values is the listing of full keys with each key
  replaced by its first component, in the same order, and the two calls leave the same
  state; when the listing of full keys raises, or does not return, so does the other.
  This holds on a hit and on a miss.
\<close>

theorem get_all_partitions_first_values:
  assumes "run_calls env cs (initial g) = Some w"
  shows "get_all_partitions env w database table True =
           (case get_all_partitions env w database table False of
              None \<Rightarrow> None
            | Some (r, w') \<Rightarrow>
                Some (case r of Inl e \<Rightarrow> Inl e | Inr full \<Rightarrow> Inr (map first_component full), w'))"
proof -
  from run_calls_inv [OF assms] cache_ok_initial [of g] have "cache_ok w" by blast
  then show ?thesis by (rule get_all_partitions_flag)
qed

text \<open>
  C1. \<open>get_last_partition\<close> returns the first element of what \<open>get_all_partitions\<close>
  returns for the same arguments, and raises \<^verbatim>\<open>IndexError\<close> when that list is empty:
  in particular on a miss for a table without partitions (one empty page) and for a
  table that the service does not find.
\<close>

theorem get_last_partition_first:
  "(get_all_partitions env w database table f = Some (Inr (x # xs), w') \<longrightarrow>
      get_last_partition env w database table f = Some (Inr x, w'))
 \<and> (get_all_partitions env w database table f = Some (Inr [], w') \<longrightarrow>
      get_last_partition env w database table f = Some (Inl IndexError, w'))
 \<and> (get_client env w = (Inr c, w0) \<longrightarrow> cache w0 (cache_key database table) = None \<longrightarrow>
      api_get_partitions env (service w0) database table 500 True ''''
        = (Inr \<lparr>Partitions = [], NextToken = None\<rparr>, g) \<longrightarrow>
      get_last_partition env w database table f =
        Some (Inl IndexError,
              stored database table [] (send (GetPartitionsReq database table 500 True '''') g w0)))
 \<and> (get_client env w = (Inr c, w0) \<longrightarrow> cache w0 (cache_key database table) = None \<longrightarrow>
      api_get_partitions env (service w0) database table 500 True ''''
        = (Inl EntityNotFoundException, g) \<longrightarrow>
      get_last_partition env w database table f =
        Some (Inl IndexError,
              stored database table []
                (logger WARNING (FetchFailed database table)
                   (send (GetPartitionsReq database table 500 True '''') g w0))))"
proof (intro conjI impI)
  assume "get_all_partitions env w database table f = Some (Inr (x # xs), w')"
  then show "get_last_partition env w database table f = Some (Inr x, w')"
    by (simp add: get_last_partition_def)
next
  assume "get_all_partitions env w database table f = Some (Inr [], w')"
  then show "get_last_partition env w database table f = Some (Inl IndexError, w')"
    by (simp add: get_last_partition_def)
next
  assume c: "get_client env w = (Inr c, w0)" and m: "cache w0 (cache_key database table) = None"
    and a: "api_get_partitions env (service w0) database table 500 True ''''
              = (Inr \<lparr>Partitions = [], NextToken = None\<rparr>, g)"
  from a have "fetch_pages env database table '''' [] w0 =
      Some (Inr (), [], send (GetPartitionsReq database table 500 True '''') g w0)"
    by (subst fetch_pages.simps) (simp add: client_get_partitions_def sorted_reverse_def sort_desc_def)
  with c m have "get_all_partitions env w database table f =
      Some (Inr [], stored database table [] (send (GetPartitionsReq database table 500 True '''') g w0))"
    by (simp add: get_all_partitions_def stored_def listing_def first_values_def)
  then show "get_last_partition env w database table f =
      Some (Inl IndexError, stored database table [] (send (GetPartitionsReq database table 500 True '''') g w0))"
    by (simp add: get_last_partition_def)
next
  assume c: "get_client env w = (Inr c, w0)" and m: "cache w0 (cache_key database table) = None"
    and a: "api_get_partitions env (service w0) database table 500 True ''''
              = (Inl EntityNotFoundException, g)"
  from a have "fetch_pages env database table '''' [] w0 =
      Some (Inl EntityNotFoundException, [], send (GetPartitionsReq database table 500 True '''') g w0)"
    by (subst fetch_pages.simps) (simp add: client_get_partitions_def)
  with c m have "get_all_partitions env w database table f =
      Some (Inr [], stored database table []
              (logger WARNING (FetchFailed database table)
                 (send (GetPartitionsReq database table 500 True '''') g w0)))"
    by (simp add: get_all_partitions_def stored_def listing_def first_values_def Let_def)
  then show "get_last_partition env w database table f =
      Some (Inl IndexError, stored database table []
              (logger WARNING (FetchFailed database table)
                 (send (GetPartitionsReq database table 500 True '''') g w0)))"
    by (simp add: get_last_partition_def)
qed

text \<open>
  C6. Once a listing of a table has returned, every later listing of that table,
  after any sequence of calls of the module, returns the list that the first one stored
  in the cache (its first values when these are asked for) and leaves the state as it
  is: no request is sent, nothing is logged, and the entry is the one that was stored.
\<close>

theorem get_all_partitions_cached:
  assumes first: "get_all_partitions env w database table f = Some (Inr r, w1)"
    and later: "run_calls env cs w1 = Some w2"
  shows "\<exists>ps. cache w1 (cache_key database table) = Some ps \<and> listing f ps = Inr r \<and>
              cache w2 (cache_key database table) = Some ps \<and>
              get_all_partitions env w2 database table f = Some (Inr r, w2) \<and>
              get_all_partitions env w2 database table False = Some (Inr (map Lst ps), w2) \<and>
              get_all_partitions env w2 database table True = Some (first_values ps, w2)"
proof -
  from get_all_partitions_post [OF first] obtain ps c where
    ps: "cache w1 (cache_key database table) = Some ps" "listing f ps = Inr r"
    and c1: "client_glue w1 = Some c"
    by auto
  from run_calls_inv [OF later] ps c1 have
    ps2: "cache w2 (cache_key database table) = Some ps" and c2: "client_glue w2 = Some c"
    by auto
  have g: "get_client env w2 = (Inr c, w2)" by (rule get_client_present [OF c2])
  have "\<And>f'. get_all_partitions env w2 database table f' = Some (listing f' ps, w2)"
    by (rule get_all_partitions_hit [OF g ps2])
  with ps ps2 show ?thesis by (simp add: listing_def)
qed

text \<open>
  C9. \<open>get_partition\<close>, \<open>create_partition\<close> and \<open>update_partition\<close> leave the
  cache as it is, whatever the service does; so do \<open>get_all_partitions\<close> and
  \<open>get_last_partition\<close> for a table that has an entry. Hence a listing after a
  \<open>create_partition\<close> or an \<open>update_partition\<close> still returns the entry that was
  there before.
\<close>

theorem cache_written_on_miss_only:
  "cache (snd (get_partition env w database table key)) = cache w
 \<and> cache (snd (create_partition env w database table key location)) = cache w
 \<and> cache (snd (update_partition env w database table key location)) = cache w
 \<and> (cache w (cache_key database table) \<noteq> None \<longrightarrow>
      get_all_partitions env w database table f = Some (r, w') \<longrightarrow> cache w' = cache w)
 \<and> (cache w (cache_key database table) \<noteq> None \<longrightarrow>
      get_last_partition env w database table f = Some (r', w') \<longrightarrow> cache w' = cache w)
 \<and> (cache w (cache_key database table) = Some ps \<longrightarrow> client_glue w = Some c \<longrightarrow>
      get_all_partitions env (snd (create_partition env w database table key location)) database table f
        = Some (listing f ps, snd (create_partition env w database table key location))
    \<and> get_all_partitions env (snd (update_partition env w database table key location)) database table f
        = Some (listing f ps, snd (update_partition env w database table key location)))"
proof -
  have gp: "get_partition env w database table key =
              (fst (get_partition env w database table key), snd (get_partition env w database table key))"
    by simp
  have cp: "create_partition env w database table key location =
              (fst (create_partition env w database table key location),
               snd (create_partition env w database table key location))"
    by simp
  have up: "update_partition env w database table key location =
              (fst (update_partition env w database table key location),
               snd (update_partition env w database table key location))"
    by simp
  note f1 = get_partition_frame [OF gp] and f2 = create_partition_frame [OF cp]
    and f3 = update_partition_frame [OF up]
  have hit: "cache w' = cache w"
    if e: "cache w (cache_key database table) \<noteq> None"
      and r: "get_all_partitions env w database table f = Some (r0, w')" for r0
  proof -
    obtain a w0 where g: "get_client env w = (a, w0)" by (cases "get_client env w")
    note gf = get_client_frame [OF g]
    show ?thesis
    proof (cases a)
      case (Inl e)
      with g r have "w' = w0" by (simp add: get_all_partitions_def)
      with gf show ?thesis by simp
    next
      case (Inr c)
      with g have c: "get_client env w = (Inr c, w0)" by simp
      from e gf obtain ps where "cache w0 (cache_key database table) = Some ps" by auto
      from get_all_partitions_hit [OF c this, of f] r have "w' = w0" by simp
      with gf show ?thesis by simp
    qed
  qed
  have last: "cache w' = cache w"
    if e: "cache w (cache_key database table) \<noteq> None"
      and r: "get_last_partition env w database table f = Some (r', w')"
  proof -
    from get_last_partition_post [OF r] obtain r0 where
      "get_all_partitions env w database table f = Some (r0, w')" by blast
    from hit [OF e this] show ?thesis .
  qed
  have after: "get_all_partitions env v database table f = Some (listing f ps, v)"
    if "cache v = cache w" "client_glue w \<noteq> None \<longrightarrow> client_glue v = client_glue w"
      "cache w (cache_key database table) = Some ps" "client_glue w = Some c" for v
  proof -
    from that have cv: "client_glue v = Some c" and pv: "cache v (cache_key database table) = Some ps"
      by auto
    show ?thesis
      by (rule get_all_partitions_hit [OF get_client_present [OF cv] pv])
  qed
  from f1 f2 f3 hit last after show ?thesis by blast
qed

subsection \<open>Pages\<close>

lemma fetch_pages_paged:
  assumes "paged env (service w) database table tok script = Some g'"
    and "\<forall>(tk, page) \<in> set script. [] \<notin> set (map Values page)"
  shows "fetch_pages env database table tok acc w =
           Some (Inr (), acc @ aggregated script,
                 w\<lparr>service := g', requests := requests w @ listing_requests database table script\<rparr>)"
  using assms
proof (induction script arbitrary: w tok acc)
  case Nil
  then show ?case by simp
next
  case (Cons entry rest)
  obtain tk page where entry: "entry = (tk, page)" by (cases entry)
  obtain a g1 where api: "api_get_partitions env (service w) database table 500 True tok = (a, g1)"
    by (cases "api_get_partitions env (service w) database table 500 True tok")
  from Cons.prems(1) entry api obtain response where
    a: "a = Inr response" and tk: "tk = tok" and page: "Partitions response = page"
    by (cases a) (auto split: if_splits)
  let ?w1 = "send (GetPartitionsReq database table 500 True tok) g1 w"
  have call: "client_get_partitions env w database table 500 True tok = (Inr response, ?w1)"
    using api a by (simp add: client_get_partitions_def)
  from Cons.prems(2) entry have ne: "[] \<notin> set (map Values page)" by simp
  then have sr: "sorted_reverse (Partitions response) = Inr (sort_desc page)"
    using page by (simp add: sorted_reverse_def)
  show ?case
  proof (cases "NextToken response")
    case None
    with Cons.prems(1) entry api a tk page have rest: "rest = []" and g': "g' = g1"
      by (auto split: if_splits)
    have "fetch_pages env database table tok acc w =
            Some (Inr (), acc @ map Values (sort_desc page), ?w1)"
      by (subst fetch_pages.simps) (simp add: call sr None)
    with rest g' entry tk show ?thesis
      by (simp add: aggregated_def listing_requests_def send_def)
  next
    case (Some tok')
    with Cons.prems(1) entry api a tk page
    have p: "paged env (service ?w1) database table tok' rest = Some g'"
      by (auto simp: send_def split: if_splits)
    from Cons.prems(2) have ne': "\<forall>(tk, page) \<in> set rest. [] \<notin> set (map Values page)" by simp
    have "fetch_pages env database table tok acc w =
            fetch_pages env database table tok' (acc @ map Values (sort_desc page)) ?w1"
      by (subst fetch_pages.simps) (simp add: call sr Some)
    also have "\<dots> = Some (Inr (), (acc @ map Values (sort_desc page)) @ aggregated rest,
                 ?w1\<lparr>service := g', requests := requests ?w1 @ listing_requests database table rest\<rparr>)"
      by (rule Cons.IH [OF p ne'])
    finally show ?thesis
      using entry tk by (simp add: aggregated_def listing_requests_def send_def)
  qed
qed

lemma aggregated_nonempty:
  "\<forall>(tk, page) \<in> set script. [] \<notin> set (map Values page) \<Longrightarrow> [] \<notin> set (aggregated script)"
  by (auto simp: aggregated_def set_sort_desc)

lemma length_aggregated:
  "length (aggregated script) = sum_list (map (\<lambda>(tk, page). length page) script)"
  by (induction script) (auto simp: aggregated_def length_sort_desc)

lemma get_all_partitions_paged:
  assumes c: "get_client env w = (Inr c, w0)"
    and m: "cache w0 (cache_key database table) = None"
    and p: "paged env (service w0) database table '''' script = Some g'"
    and ne: "\<forall>(tk, page) \<in> set script. [] \<notin> set (map Values page)"
  shows "get_all_partitions env w database table f =
           Some (listing f (aggregated script),
                 stored database table (aggregated script)
                   (w0\<lparr>service := g', requests := requests w0 @ listing_requests database table script\<rparr>))"
  using c m fetch_pages_paged [OF p ne, of "[]"]
  by (simp add: get_all_partitions_def stored_def)

text \<open>
  C7. On a miss, when the service answers the requests of the loop with the pages of
  a script, the last one being the first without a continuation token, the call
  returns, after one request for each page, each asking for 500 entries at most and
  sending the token of the response before it. The list it returns and stores has
  the entries of all pages: its length is the sum of the lengths of the pages.
\<close>

theorem get_all_partitions_all_pages:
  assumes "get_client env w = (Inr c, w0)"
    and "cache w0 (cache_key database table) = None"
    and "paged env (service w0) database table '''' script = Some g'"
    and "\<forall>(tk, page) \<in> set script. [] \<notin> set (map Values page)"
  shows "get_all_partitions env w database table f =
           Some (Inr (if f then map (\<lambda>p. Str (hd p)) (aggregated script)
                      else map Lst (aggregated script)),
                 stored database table (aggregated script)
                   (w0\<lparr>service := g', requests := requests w0 @ listing_requests database table script\<rparr>))
       \<and> length (if f then map (\<lambda>p. Str (hd p)) (aggregated script) else map Lst (aggregated script))
           = sum_list (map (\<lambda>(tk, page). length page) script)"
  using get_all_partitions_paged [OF assms, of f] listing_nonempty [OF aggregated_nonempty [OF assms(4)], of f]
  by (simp add: length_aggregated)

subsection \<open>The listing of the demonstration catalog\<close>

lemma demo_paged:
  "paged (memory_glue 2) demo_catalog ''sales'' ''transactions'' '''' demo_script = Some demo_catalog"
  by (simp add: demo_catalog_def demo_script_def memory_glue_def)

lemma demo_nonempty: "\<forall>(tk, page) \<in> set demo_script. [] \<notin> set (map Values page)"
  by (simp add: demo_script_def)

lemma demo_aggregated: "aggregated demo_script = [[''2024-02''], [''2024-01''], [''2024-03'']]"
  by (simp add: aggregated_def demo_script_def sort_desc_def)

lemma demo_client:
  "get_client (memory_glue 2) (initial demo_catalog)
     = (Inr GlueClient, (initial demo_catalog)\<lparr>client_glue := Some GlueClient\<rparr>)"
  by (simp add: get_client_def create_client_def memory_glue_def initial_def)

lemma demo_listing:
  "get_all_partitions (memory_glue 2) (initial demo_catalog) ''sales'' ''transactions'' f =
     Some (listing f [[''2024-02''], [''2024-01''], [''2024-03'']], demo_listed)"
proof -
  have m: "cache ((initial demo_catalog)\<lparr>client_glue := Some GlueClient\<rparr>)
             (cache_key ''sales'' ''transactions'') = None"
    by (simp add: initial_def)
  have p: "paged (memory_glue 2) (service ((initial demo_catalog)\<lparr>client_glue := Some GlueClient\<rparr>))
             ''sales'' ''transactions'' '''' demo_script = Some demo_catalog"
    using demo_paged by (simp add: initial_def)
  from get_all_partitions_paged [OF demo_client m p demo_nonempty, of f, unfolded demo_aggregated]
  show ?thesis
    by (simp add: demo_aggregated stored_def initial_def demo_listed_def listing_requests_def
          demo_script_def cache_key_def)
qed

lemma demo_hit:
  "get_all_partitions (memory_glue 2) demo_listed ''sales'' ''transactions'' f =
     Some (listing f [[''2024-02''], [''2024-01''], [''2024-03'']], demo_listed)"
  by (simp add: get_all_partitions_def get_client_def demo_listed_def cache_key_def)

lemma demo_listing_False:
  "listing False [[''2024-02''], [''2024-01''], [''2024-03'']]
     = Inr [Lst [''2024-02''], Lst [''2024-01''], Lst [''2024-03'']]"
  by (simp add: listing_def)

lemma demo_listing_True:
  "listing True [[''2024-02''], [''2024-01''], [''2024-03'']]
     = Inr [Str ''2024-02'', Str ''2024-01'', Str ''2024-03'']"
  by (simp add: listing_def first_values_def)

theorem get_all_partitions_all_pages_witness:
  "get_client (memory_glue 2) (initial demo_catalog)
     = (Inr GlueClient, (initial demo_catalog)\<lparr>client_glue := Some GlueClient\<rparr>)
   \<and> cache ((initial demo_catalog)\<lparr>client_glue := Some GlueClient\<rparr>) (cache_key ''sales'' ''transactions'') = None
   \<and> paged (memory_glue 2) demo_catalog ''sales'' ''transactions'' '''' demo_script = Some demo_catalog
   \<and> list_all (\<lambda>(tk, page). [] \<notin> set (map Values page)) demo_script
   \<and> get_all_partitions (memory_glue 2) (initial demo_catalog) ''sales'' ''transactions'' False
       = Some (Inr [Lst [''2024-02''], Lst [''2024-01''], Lst [''2024-03'']], demo_listed)
   \<and> length [Lst [''2024-02''], Lst [''2024-01''], Lst [''2024-03'']]
       = sum_list (map (\<lambda>(tk, page). length page) demo_script)"
proof -
  have m: "cache ((initial demo_catalog)\<lparr>client_glue := Some GlueClient\<rparr>)
             (cache_key ''sales'' ''transactions'') = None"
    by (simp add: initial_def)
  have p: "paged (memory_glue 2) (service ((initial demo_catalog)\<lparr>client_glue := Some GlueClient\<rparr>))
             ''sales'' ''transactions'' '''' demo_script = Some demo_catalog"
    using demo_paged by (simp add: initial_def)
  from get_all_partitions_all_pages [OF demo_client m p demo_nonempty, of False, unfolded demo_aggregated]
  have "get_all_partitions (memory_glue 2) (initial demo_catalog) ''sales'' ''transactions'' False
          = Some (Inr [Lst [''2024-02''], Lst [''2024-01''], Lst [''2024-03'']], demo_listed)
        \<and> length [Lst [''2024-02''], Lst [''2024-01''], Lst [''2024-03'']]
          = sum_list (map (\<lambda>(tk, page). length page) demo_script)"
    by (simp add: stored_def initial_def demo_listed_def listing_requests_def demo_script_def cache_key_def)
  moreover have "list_all (\<lambda>(tk, page). [] \<notin> set (map Values page)) demo_script"
    using demo_nonempty by (simp add: list_all_iff)
  ultimately show ?thesis using demo_client m demo_paged by blast
qed

theorem get_all_partitions_first_values_witness:
  "run_calls (memory_glue 2) [] (initial demo_catalog) = Some (initial demo_catalog)
   \<and> get_all_partitions (memory_glue 2) (initial demo_catalog) ''sales'' ''transactions'' False
       = Some (Inr [Lst [''2024-02''], Lst [''2024-01''], Lst [''2024-03'']], demo_listed)
   \<and> get_all_partitions (memory_glue 2) (initial demo_catalog) ''sales'' ''transactions'' True
       = Some (Inr [Str ''2024-02'', Str ''2024-01'', Str ''2024-03''], demo_listed)
   \<and> run_calls (memory_glue 2) [GetAllPartitions ''sales'' ''transactions'' True] (initial demo_catalog)
       = Some demo_listed
   \<and> get_all_partitions (memory_glue 2) demo_listed ''sales'' ''transactions'' False
       = Some (Inr [Lst [''2024-02''], Lst [''2024-01''], Lst [''2024-03'']], demo_listed)
   \<and> get_all_partitions (memory_glue 2) demo_listed ''sales'' ''transactions'' True
       = Some (Inr [Str ''2024-02'', Str ''2024-01'', Str ''2024-03''], demo_listed)"
proof -
  have r0: "run_calls (memory_glue 2) [] (initial demo_catalog) = Some (initial demo_catalog)"
    by simp
  have r1: "run_calls (memory_glue 2) [GetAllPartitions ''sales'' ''transactions'' True]
              (initial demo_catalog) = Some demo_listed"
    by (simp add: demo_listing)
  have miss: "get_all_partitions (memory_glue 2) (initial demo_catalog) ''sales'' ''transactions'' False
       = Some (Inr [Lst [''2024-02''], Lst [''2024-01''], Lst [''2024-03'']], demo_listed)"
    by (simp add: demo_listing demo_listing_False)
  have hit: "get_all_partitions (memory_glue 2) demo_listed ''sales'' ''transactions'' False
       = Some (Inr [Lst [''2024-02''], Lst [''2024-01''], Lst [''2024-03'']], demo_listed)"
    by (simp add: demo_hit demo_listing_False)
  from get_all_partitions_first_values [OF r0, of "''sales''" "''transactions''"] miss
  have a: "get_all_partitions (memory_glue 2) (initial demo_catalog) ''sales'' ''transactions'' True
       = Some (Inr [Str ''2024-02'', Str ''2024-01'', Str ''2024-03''], demo_listed)"
    by simp
  from get_all_partitions_first_values [OF r1, of "''sales''" "''transactions''"] hit
  have b: "get_all_partitions (memory_glue 2) demo_listed ''sales'' ''transactions'' True
       = Some (Inr [Str ''2024-02'', Str ''2024-01'', Str ''2024-03''], demo_listed)"
    by simp
  from r0 r1 miss hit a b show ?thesis by blast
qed

theorem get_last_partition_first_witness:
  "get_all_partitions (memory_glue 2) (initial demo_catalog) ''sales'' ''transactions'' True
     = Some (Inr (Str ''2024-02'' # [Str ''2024-01'', Str ''2024-03'']), demo_listed)
   \<and> get_last_partition (memory_glue 2) (initial demo_catalog) ''sales'' ''transactions'' True
     = Some (Inr (Str ''2024-02''), demo_listed)
   \<and> get_all_partitions (memory_glue 2)
        \<lparr>client_glue = Some GlueClient, cache = [''sales.transactions'' \<mapsto> []], service = [],
         requests = [], log = []\<rparr> ''sales'' ''transactions'' True
     = Some (Inr [], \<lparr>client_glue = Some GlueClient, cache = [''sales.transactions'' \<mapsto> []],
                      service = [], requests = [], log = []\<rparr>)
   \<and> get_last_partition (memory_glue 2)
        \<lparr>client_glue = Some GlueClient, cache = [''sales.transactions'' \<mapsto> []], service = [],
         requests = [], log = []\<rparr> ''sales'' ''transactions'' True
     = Some (Inl IndexError, \<lparr>client_glue = Some GlueClient, cache = [''sales.transactions'' \<mapsto> []],
                              service = [], requests = [], log = []\<rparr>)
   \<and> api_get_partitions (memory_glue 2) [] ''sales'' ''transactions'' 500 True ''''
     = (Inr \<lparr>Partitions = [], NextToken = None\<rparr>, [])
   \<and> get_last_partition (memory_glue 2) (initial []) ''sales'' ''transactions'' True
     = Some (Inl IndexError,
             \<lparr>client_glue = Some GlueClient, cache = [''sales.transactions'' \<mapsto> []], service = [],
              requests = [GetPartitionsReq ''sales'' ''transactions'' 500 True ''''], log = []\<rparr>)
   \<and> api_get_partitions (constant_glue (Inl EntityNotFoundException) (Inl EntityNotFoundException)
                            (Inl EntityNotFoundException)) () ''sales'' ''transactions'' 500 True ''''
     = (Inl EntityNotFoundException, ())
   \<and> get_last_partition (constant_glue (Inl EntityNotFoundException) (Inl EntityNotFoundException)
                            (Inl EntityNotFoundException)) (initial ()) ''sales'' ''transactions'' False
     = Some (Inl IndexError,
             \<lparr>client_glue = Some GlueClient, cache = [''sales.transactions'' \<mapsto> []], service = (),
              requests = [GetPartitionsReq ''sales'' ''transactions'' 500 True ''''],
              log = [(WARNING, FetchFailed ''sales'' ''transactions'')]\<rparr>)"
proof -
  let ?e = "\<lparr>client_glue = Some GlueClient, cache = [''sales.transactions'' \<mapsto> []],
             service = [] :: partition list, requests = [], log = []\<rparr>"
  let ?k = "constant_glue (Inl EntityNotFoundException) (Inl EntityNotFoundException)
              (Inl EntityNotFoundException)"
  have a1: "get_all_partitions (memory_glue 2) (initial demo_catalog) ''sales'' ''transactions'' True
     = Some (Inr (Str ''2024-02'' # [Str ''2024-01'', Str ''2024-03'']), demo_listed)"
    by (simp add: demo_listing demo_listing_True)
  have a2: "get_all_partitions (memory_glue 2) ?e ''sales'' ''transactions'' True = Some (Inr [], ?e)"
    by (simp add: get_all_partitions_def get_client_def cache_key_def listing_def first_values_def)
  have c3: "get_client (memory_glue 2) (initial []) = (Inr GlueClient, (initial [])\<lparr>client_glue := Some GlueClient\<rparr>)"
    by (simp add: get_client_def create_client_def memory_glue_def initial_def)
  have m3: "cache ((initial ([] :: partition list))\<lparr>client_glue := Some GlueClient\<rparr>)
              (cache_key ''sales'' ''transactions'') = None"
    by (simp add: initial_def)
  have a3: "api_get_partitions (memory_glue 2) (service ((initial [])\<lparr>client_glue := Some GlueClient\<rparr>))
              ''sales'' ''transactions'' 500 True '''' = (Inr \<lparr>Partitions = [], NextToken = None\<rparr>, [])"
    by (simp add: memory_glue_def initial_def)
  have c4: "get_client ?k (initial ()) = (Inr GlueClient, (initial ())\<lparr>client_glue := Some GlueClient\<rparr>)"
    by (simp add: get_client_def create_client_def constant_glue_def initial_def)
  have m4: "cache ((initial ())\<lparr>client_glue := Some GlueClient\<rparr>) (cache_key ''sales'' ''transactions'') = None"
    by (simp add: initial_def)
  have a4: "api_get_partitions ?k (service ((initial ())\<lparr>client_glue := Some GlueClient\<rparr>))
              ''sales'' ''transactions'' 500 True '''' = (Inl EntityNotFoundException, ())"
    by (simp add: constant_glue_def)
  note t1 = get_last_partition_first [of "memory_glue 2" "initial demo_catalog" "''sales''" "''transactions''"
              True "Str ''2024-02''" "[Str ''2024-01'', Str ''2024-03'']" demo_listed]
  note t2 = get_last_partition_first [of "memory_glue 2" ?e "''sales''" "''transactions''" True _ _ ?e]
  note t3 = get_last_partition_first [of "memory_glue 2" "initial []" "''sales''" "''transactions''" True
              _ _ _ GlueClient "(initial [])\<lparr>client_glue := Some GlueClient\<rparr>" "[]"]
  note t4 = get_last_partition_first [of ?k "initial ()" "''sales''" "''transactions''" False
              _ _ _ GlueClient "(initial ())\<lparr>client_glue := Some GlueClient\<rparr>" "()"]
  from t1 a1 have b1: "get_last_partition (memory_glue 2) (initial demo_catalog) ''sales'' ''transactions'' True
     = Some (Inr (Str ''2024-02''), demo_listed)" by blast
  from t2 a2 have b2: "get_last_partition (memory_glue 2) ?e ''sales'' ''transactions'' True
     = Some (Inl IndexError, ?e)" by blast
  from t3 c3 m3 a3 have b3: "get_last_partition (memory_glue 2) (initial []) ''sales'' ''transactions'' True
     = Some (Inl IndexError, stored ''sales'' ''transactions'' []
               (send (GetPartitionsReq ''sales'' ''transactions'' 500 True '''') []
                  ((initial [])\<lparr>client_glue := Some GlueClient\<rparr>)))" by blast
  from t4 c4 m4 a4 have b4: "get_last_partition ?k (initial ()) ''sales'' ''transactions'' False
     = Some (Inl IndexError, stored ''sales'' ''transactions'' []
               (logger WARNING (FetchFailed ''sales'' ''transactions'')
                  (send (GetPartitionsReq ''sales'' ''transactions'' 500 True '''') ()
                     ((initial ())\<lparr>client_glue := Some GlueClient\<rparr>))))" by blast
  have s3: "stored ''sales'' ''transactions'' []
               (send (GetPartitionsReq ''sales'' ''transactions'' 500 True '''') []
                  ((initial ([] :: partition list))\<lparr>client_glue := Some GlueClient\<rparr>))
            = \<lparr>client_glue = Some GlueClient, cache = [''sales.transactions'' \<mapsto> []], service = [],
              requests = [GetPartitionsReq ''sales'' ''transactions'' 500 True ''''], log = []\<rparr>"
    by (simp add: stored_def send_def initial_def cache_key_def)
  have s4: "stored ''sales'' ''transactions'' []
               (logger WARNING (FetchFailed ''sales'' ''transactions'')
                  (send (GetPartitionsReq ''sales'' ''transactions'' 500 True '''') ()
                     ((initial ())\<lparr>client_glue := Some GlueClient\<rparr>)))
            = \<lparr>client_glue = Some GlueClient, cache = [''sales.transactions'' \<mapsto> []], service = (),
              requests = [GetPartitionsReq ''sales'' ''transactions'' 500 True ''''],
              log = [(WARNING, FetchFailed ''sales'' ''transactions'')]\<rparr>"
    by (simp add: stored_def send_def logger_def initial_def cache_key_def)
  from a3 have a3': "api_get_partitions (memory_glue 2) [] ''sales'' ''transactions'' 500 True ''''
     = (Inr \<lparr>Partitions = [], NextToken = None\<rparr>, [])" by (simp add: initial_def)
  from a4 have a4': "api_get_partitions ?k () ''sales'' ''transactions'' 500 True ''''
     = (Inl EntityNotFoundException, ())" by (simp add: initial_def)
  from a1 b1 a2 b2 a3' b3 [unfolded s3] a4' b4 [unfolded s4] show ?thesis by blast
qed

lemma demo_create:
  "create_partition (memory_glue 2) demo_listed ''sales'' ''transactions'' [PyStr ''2024-04'']
     ''s3://sales/2024-04''
   = (Inr (),
      demo_listed
        \<lparr>service := demo_catalog @ [\<lparr>Values = [''2024-04''], Location = ''s3://sales/2024-04''\<rparr>],
         requests := requests demo_listed @
           [GetPartitionReq ''sales'' ''transactions'' [''2024-04''],
            CreatePartitionReq ''sales'' ''transactions'' (create_input [''2024-04''] ''s3://sales/2024-04'')],
         log := [(WARNING, PartitionMissing [''2024-04''] ''sales'' ''transactions''),
                 (DEBUG, Creating [''2024-04''] ''s3://sales/2024-04''), (DEBUG, Created)]\<rparr>)"
  by (simp add: create_partition_def get_partition_def get_client_def client_get_partition_def
        client_create_partition_def memory_glue_def demo_listed_def demo_catalog_def
        send_def logger_def Let_def create_input_def)

theorem get_all_partitions_cached_witness:
  "get_all_partitions (memory_glue 2) (initial demo_catalog) ''sales'' ''transactions'' True
     = Some (Inr [Str ''2024-02'', Str ''2024-01'', Str ''2024-03''], demo_listed)
   \<and> run_calls (memory_glue 2)
        [CreatePartition ''sales'' ''transactions'' [PyStr ''2024-04''] ''s3://sales/2024-04'']
        demo_listed
     = Some (snd (create_partition (memory_glue 2) demo_listed ''sales'' ''transactions''
                    [PyStr ''2024-04''] ''s3://sales/2024-04''))
   \<and> service (snd (create_partition (memory_glue 2) demo_listed ''sales'' ''transactions''
                    [PyStr ''2024-04''] ''s3://sales/2024-04''))
     = demo_catalog @ [\<lparr>Values = [''2024-04''], Location = ''s3://sales/2024-04''\<rparr>]
   \<and> get_all_partitions (memory_glue 2)
        (snd (create_partition (memory_glue 2) demo_listed ''sales'' ''transactions''
                [PyStr ''2024-04''] ''s3://sales/2024-04''))
        ''sales'' ''transactions'' True
     = Some (Inr [Str ''2024-02'', Str ''2024-01'', Str ''2024-03''],
             snd (create_partition (memory_glue 2) demo_listed ''sales'' ''transactions''
                    [PyStr ''2024-04''] ''s3://sales/2024-04''))"
proof -
  let ?w2 = "snd (create_partition (memory_glue 2) demo_listed ''sales'' ''transactions''
                    [PyStr ''2024-04''] ''s3://sales/2024-04'')"
  have first: "get_all_partitions (memory_glue 2) (initial demo_catalog) ''sales'' ''transactions'' True
     = Some (Inr [Str ''2024-02'', Str ''2024-01'', Str ''2024-03''], demo_listed)"
    by (simp add: demo_listing demo_listing_True)
  have later: "run_calls (memory_glue 2)
        [CreatePartition ''sales'' ''transactions'' [PyStr ''2024-04''] ''s3://sales/2024-04'']
        demo_listed = Some ?w2"
    by simp
  have svc: "service ?w2 = demo_catalog @ [\<lparr>Values = [''2024-04''], Location = ''s3://sales/2024-04''\<rparr>]"
    by (simp add: demo_create)
  from get_all_partitions_cached [OF first later]
  have "get_all_partitions (memory_glue 2) ?w2 ''sales'' ''transactions'' True
          = Some (Inr [Str ''2024-02'', Str ''2024-01'', Str ''2024-03''], ?w2)"
    by blast
  with first later svc show ?thesis by blast
qed

theorem cache_written_on_miss_only_witness:
  "cache demo_listed (cache_key ''sales'' ''transactions'')
     = Some [[''2024-02''], [''2024-01''], [''2024-03'']]
   \<and> client_glue demo_listed = Some GlueClient
   \<and> get_all_partitions (memory_glue 2) demo_listed ''sales'' ''transactions'' False
     = Some (Inr [Lst [''2024-02''], Lst [''2024-01''], Lst [''2024-03'']], demo_listed)
   \<and> get_last_partition (memory_glue 2) demo_listed ''sales'' ''transactions'' False
     = Some (Inr (Lst [''2024-02'']), demo_listed)
   \<and> service (snd (create_partition (memory_glue 2) demo_listed ''sales'' ''transactions''
                    [PyStr ''2024-04''] ''s3://sales/2024-04''))
     = demo_catalog @ [\<lparr>Values = [''2024-04''], Location = ''s3://sales/2024-04''\<rparr>]
   \<and> cache (snd (create_partition (memory_glue 2) demo_listed ''sales'' ''transactions''
                  [PyStr ''2024-04''] ''s3://sales/2024-04'')) = cache demo_listed
   \<and> get_all_partitions (memory_glue 2)
        (snd (create_partition (memory_glue 2) demo_listed ''sales'' ''transactions''
                [PyStr ''2024-04''] ''s3://sales/2024-04''))
        ''sales'' ''transactions'' False
     = Some (Inr [Lst [''2024-02''], Lst [''2024-01''], Lst [''2024-03'']],
             snd (create_partition (memory_glue 2) demo_listed ''sales'' ''transactions''
                    [PyStr ''2024-04''] ''s3://sales/2024-04''))
   \<and> get_all_partitions (memory_glue 2)
        (snd (update_partition (memory_glue 2) demo_listed ''sales'' ''transactions''
                [PyStr ''2024-04''] ''s3://sales/2024-04''))
        ''sales'' ''transactions'' False
     = Some (Inr [Lst [''2024-02''], Lst [''2024-01''], Lst [''2024-03'']],
             snd (update_partition (memory_glue 2) demo_listed ''sales'' ''transactions''
                    [PyStr ''2024-04''] ''s3://sales/2024-04''))"
proof -
  let ?ps = "[[''2024-02''], [''2024-01''], [''2024-03'']]"
  let ?c = "snd (create_partition (memory_glue 2) demo_listed ''sales'' ''transactions''
                   [PyStr ''2024-04''] ''s3://sales/2024-04'')"
  let ?u = "snd (update_partition (memory_glue 2) demo_listed ''sales'' ''transactions''
                   [PyStr ''2024-04''] ''s3://sales/2024-04'')"
  have e: "cache demo_listed (cache_key ''sales'' ''transactions'') = Some ?ps"
    by (simp add: demo_listed_def cache_key_def)
  then have ne: "cache demo_listed (cache_key ''sales'' ''transactions'') \<noteq> None" by simp
  have c: "client_glue demo_listed = Some GlueClient" by (simp add: demo_listed_def)
  have h: "get_all_partitions (memory_glue 2) demo_listed ''sales'' ''transactions'' False
             = Some (Inr [Lst [''2024-02''], Lst [''2024-01''], Lst [''2024-03'']], demo_listed)"
    by (simp add: demo_hit demo_listing_False)
  then have l: "get_last_partition (memory_glue 2) demo_listed ''sales'' ''transactions'' False
             = Some (Inr (Lst [''2024-02'']), demo_listed)"
    by (simp add: get_last_partition_def)
  have svc: "service ?c = demo_catalog @ [\<lparr>Values = [''2024-04''], Location = ''s3://sales/2024-04''\<rparr>]"
    by (simp add: demo_create)
  note t = cache_written_on_miss_only [of "memory_glue 2" demo_listed "''sales''" "''transactions''"
             "[PyStr ''2024-04'']" "''s3://sales/2024-04''" False
             "Inr [Lst [''2024-02''], Lst [''2024-01''], Lst [''2024-03'']]" demo_listed
             "Inr (Lst [''2024-02''])" ?ps GlueClient]
  from t have k: "cache ?c = cache demo_listed" by blast
  from t ne h l have "cache demo_listed = cache demo_listed" by blast
  from t e c have
    "get_all_partitions (memory_glue 2) ?c ''sales'' ''transactions'' False = Some (listing False ?ps, ?c)"
    "get_all_partitions (memory_glue 2) ?u ''sales'' ''transactions'' False = Some (listing False ?ps, ?u)"
    by blast+
  with e c h l svc k show ?thesis by (simp add: demo_listing_False)
qed

text \<open>
  C2. The sort is inside the loop, so it orders each page and not the list: the
  catalog of the demonstration, listed in pages of two entries, leaves in the cache a
  list that is not in descending order of the first value, and \<open>get_last_partition\<close>
  returns \<^verbatim>\<open>2024-02\<close> although the table has a partition \<^verbatim>\<open>2024-03\<close>.
\<close>

theorem cache_sorted_within_pages_only:
  "get_all_partitions (memory_glue 2) (initial demo_catalog) ''sales'' ''transactions'' False
     = Some (Inr [Lst [''2024-02''], Lst [''2024-01''], Lst [''2024-03'']], demo_listed)
   \<and> cache demo_listed (cache_key ''sales'' ''transactions'')
     = Some [[''2024-02''], [''2024-01''], [''2024-03'']]
   \<and> \<not> sorted_wrt (\<lambda>p q. hd q \<le> hd p) [[''2024-02''], [''2024-01''], [''2024-03'']]
   \<and> get_last_partition (memory_glue 2) (initial demo_catalog) ''sales'' ''transactions'' True
     = Some (Inr (Str ''2024-02''), demo_listed)"
proof -
  have a: "get_all_partitions (memory_glue 2) (initial demo_catalog) ''sales'' ''transactions'' False
     = Some (Inr [Lst [''2024-02''], Lst [''2024-01''], Lst [''2024-03'']], demo_listed)"
    by (simp add: demo_listing demo_listing_False)
  have b: "cache demo_listed (cache_key ''sales'' ''transactions'')
     = Some [[''2024-02''], [''2024-01''], [''2024-03'']]"
    by (simp add: demo_listed_def cache_key_def)
  have c: "\<not> sorted_wrt (\<lambda>p q. hd q \<le> hd p) [[''2024-02''], [''2024-01''], [''2024-03'']]"
    by simp
  have d: "get_last_partition (memory_glue 2) (initial demo_catalog) ''sales'' ''transactions'' True
     = Some (Inr (Str ''2024-02''), demo_listed)"
    by (simp add: get_last_partition_def demo_listing demo_listing_True)
  from a b c d show ?thesis by blast
qed

end
